theory Spec2Isabelle
  imports Complex_Main "HOL-Library.AList"
begin

section \<open>JavaScript values used by \<^verbatim>\<open>assets/modal.js\<close>\<close>

text \<open>
  Numbers are modelled as mathematical integers: every number the manager computes is a
  millisecond timestamp, a configured number of seconds or a week count, all far below
  \<open>2^53\<close>, where JavaScript doubles are exact. \<open>NaN\<close> is \<open>None\<close> of \<open>int option\<close>.
  Strings are \<open>string\<close>; only ASCII white space is recognised by \<open>parseInt\<close>.
\<close>

definition isWhiteSpace :: "char \<Rightarrow> bool" where
  "isWhiteSpace c \<longleftrightarrow>
     c \<in> set [CHR '' '', CHR 0x09, CHR 0x0A, CHR 0x0B, CHR 0x0C, CHR 0x0D]"

definition digitValue :: "char \<Rightarrow> nat option" where
  "digitValue c = map_of
     [(CHR ''0'', 0), (CHR ''1'', 1), (CHR ''2'', 2), (CHR ''3'', 3), (CHR ''4'', 4),
      (CHR ''5'', 5), (CHR ''6'', 6), (CHR ''7'', 7), (CHR ''8'', 8), (CHR ''9'', 9),
      (CHR ''a'', 10), (CHR ''b'', 11), (CHR ''c'', 12), (CHR ''d'', 13), (CHR ''e'', 14),
      (CHR ''f'', 15), (CHR ''A'', 10), (CHR ''B'', 11), (CHR ''C'', 12), (CHR ''D'', 13),
      (CHR ''E'', 14), (CHR ''F'', 15)] c"

definition isRadixDigit :: "nat \<Rightarrow> char \<Rightarrow> bool" where
  "isRadixDigit R c = (case digitValue c of None \<Rightarrow> False | Some d \<Rightarrow> d < R)"

definition addDigit :: "nat \<Rightarrow> int \<Rightarrow> char \<Rightarrow> int" where
  "addDigit R acc c = (case digitValue c of None \<Rightarrow> acc | Some d \<Rightarrow> acc * int R + int d)"

text \<open>The digits of \<open>parseInt\<close>: the longest prefix of radix-\<open>R\<close> digits, \<open>NaN\<close> when empty.\<close>

definition parseDigits :: "nat \<Rightarrow> string \<Rightarrow> int option" where
  "parseDigits R s =
     (let Z = takeWhile (isRadixDigit R) s
      in if Z = [] then None else Some (foldl (addDigit R) 0 Z))"

text \<open>
  \<open>parseInt(string)\<close> without a radix: leading white space is skipped, one sign is read,
  a \<open>0x\<close>/\<open>0X\<close> prefix selects radix 16, otherwise radix 10.
\<close>

definition parseInt :: "string \<Rightarrow> int option" where
  "parseInt str =
     (let S = dropWhile isWhiteSpace str;
          neg = (S \<noteq> [] \<and> hd S = CHR ''-'');
          S1 = (if S \<noteq> [] \<and> (hd S = CHR ''-'' \<or> hd S = CHR ''+'') then tl S else S);
          r = (if take 2 S1 = ''0x'' \<or> take 2 S1 = ''0X''
               then parseDigits 16 (drop 2 S1) else parseDigits 10 S1)
      in map_option (\<lambda>m. if neg then - m else m) r)"

text \<open>\<open>parseInt(x) || d\<close>: \<open>NaN\<close> and \<open>0\<close> are falsy.\<close>

definition orDefault :: "int option \<Rightarrow> int \<Rightarrow> int" where
  "orDefault v d = (case v of None \<Rightarrow> d | Some n \<Rightarrow> if n = 0 then d else n)"

text \<open>\<open>ToString\<close> of a value that may be \<open>null\<close> (what \<open>parseInt\<close> applies to its argument).\<close>

definition nullableToString :: "string option \<Rightarrow> string" where
  "nullableToString v = (case v of None \<Rightarrow> ''null'' | Some s \<Rightarrow> s)"

text \<open>\<open>Number.prototype.toString\<close> on an integer: its decimal digits, with a minus sign.\<close>

fun natToString :: "nat \<Rightarrow> string" where
  "natToString n =
     (if n < 10 then [''0123456789'' ! n]
      else natToString (n div 10) @ [''0123456789'' ! (n mod 10)])"

declare natToString.simps [simp del]

definition numToString :: "int \<Rightarrow> string" where
  "numToString n = (if n < 0 then CHR ''-'' # natToString (nat (- n)) else natToString (nat n))"

text \<open>
  \<open>Math.ceil(a / b)\<close> for integers \<open>a\<close> and \<open>b > 0\<close>, in integer arithmetic. For the divisor
  604800000 and \<open>|a| < 2^53\<close> the double quotient is an integer only when the exact quotient
  is one (a quotient that is not an integer is at least \<open>1 / 604800000\<close> away from the next
  integer, more than the rounding error), so \<open>Math.ceil\<close> returns the exact ceiling.
\<close>

definition ceilDiv :: "int \<Rightarrow> int \<Rightarrow> int" where
  "ceilDiv a b = - ((- a) div b)"

text \<open>\<open>String.prototype.startsWith\<close>.\<close>

definition startsWith :: "string \<Rightarrow> string \<Rightarrow> bool" where
  "startsWith s p \<longleftrightarrow> take (length p) s = p"

section \<open>Web storage\<close>

text \<open>
  \<open>sessionStorage\<close> and \<open>localStorage\<close> are ordered key-value lists: \<open>key(i)\<close> is the key
  of the \<open>i\<close>-th entry, \<open>setItem\<close> overwrites in place or appends, \<open>removeItem\<close> deletes the
  entry and the later entries move down by one.
\<close>

type_synonym storage = "(string \<times> string) list"

definition getItem :: "storage \<Rightarrow> string \<Rightarrow> string option" where
  "getItem s k = map_of s k"

definition setItem :: "string \<Rightarrow> string \<Rightarrow> storage \<Rightarrow> storage" where
  "setItem k v s = AList.update k v s"

definition removeItem :: "string \<Rightarrow> storage \<Rightarrow> storage" where
  "removeItem k s = AList.delete k s"

section \<open>Host environment\<close>

text \<open>
  What the manager reads from the browser and cannot compute itself: the viewport width,
  the local calendar (\<open>Date.prototype.getFullYear\<close>, \<open>new Date(year, 0, 1)\<close> and
  \<open>Date.prototype.toDateString\<close>, all on milliseconds since the epoch) and whether
  \<open>window.gtag\<close> exists. The instant \<open>Date.now()\<close> is passed to each operation as \<open>now\<close>;
  one synchronous call reads a single instant.
\<close>

record host =
  innerWidth :: int
  getFullYear :: "int \<Rightarrow> int"
  newDateJan1 :: "int \<Rightarrow> int"
  toDateString :: "int \<Rightarrow> string"
  gtagAvailable :: bool

definition weekMs :: int where
  "weekMs = 7 * 24 * 60 * 60 * 1000"

definition getWeekNumber :: "host \<Rightarrow> int \<Rightarrow> int" where
  "getWeekNumber h now =
     (let start = newDateJan1 h (getFullYear h now);
          diff = now - start
      in ceilDiv diff weekMs)"

section \<open>Data model\<close>

text \<open>
  The modal's DOM element, as far as the manager reads or writes it: the inline
  \<open>display\<close> style, the \<open>aria-hidden\<close> and \<open>data-modal-dev-mode\<close> attributes, the
  \<open>modal--active\<close> class, and what \<open>querySelector(All)\<close> finds below it (close buttons,
  backdrop, the \<open>action\<close> of each form, other buttons, a focusable descendant).
\<close>

record element =
  styleDisplay :: string
  ariaHidden :: string
  attrDevMode :: "string option"
  classActive :: bool
  closeButtons :: nat
  hasBackdrop :: bool
  formActions :: "string list"
  otherButtons :: nat
  hasFocusable :: bool

text \<open>The object returned by \<open>parseModalConfig\<close>; \<open>isShown\<close> and \<open>lastShown\<close> are mutable.\<close>

record config =
  element :: element
  triggerType :: string
  triggerValue :: string
  frequency :: string
  delay :: int
  mobileEnabled :: bool
  desktopEnabled :: bool
  closeOnOutsideClick :: bool
  autoCloseAfter :: int
  devMode :: bool
  isShown :: bool
  lastShown :: "int option"

text \<open>
  Callbacks handed to \<open>setTimeout\<close>. The auto-close and hide callbacks close over a config
  object (and its element), the trigger callback over the modal id only.
\<close>

datatype action =
    TriggerModal string
  | AutoClose nat string
  | HideElement nat

text \<open>
  Event listeners attached by the manager, as descriptors (which event, for which modal);
  the model does not deliver user events. The sets \<open>scrollListeners\<close> and
  \<open>exitIntentListeners\<close> only mirror the scroll and exit descriptors. Console output under
  \<open>isDebugMode\<close> changes no state and is left out.
\<close>

datatype listener =
    ScrollTrigger string int int
  | ClickTrigger string string int
  | ExitTrigger string int
  | CloseButtonClick string
  | BackdropClick string
  | EscapeKey string nat
  | FormSubmit string string
  | ButtonClick string

text \<open>
  The page state. Config objects live in \<open>heap\<close> and are referred to by index, since timer
  and listener closures keep a config object alive after its id is registered again;
  \<open>modals\<close> is the \<open>Map\<close> from id to config object, in insertion order. \<open>events\<close> are the
  dispatched \<open>CustomEvent\<close>s (name, modal id, config), \<open>timers\<close> the pending \<open>setTimeout\<close>
  callbacks with their due time, \<open>frames\<close> the pending \<open>requestAnimationFrame\<close> callbacks,
  \<open>focused\<close> the config whose element holds the focus, \<open>gtagCalls\<close> the analytics calls.
\<close>

record world =
  heap :: "config list"
  modals :: "(string \<times> nat) list"
  session :: storage
  local :: storage
  bodyOverflow :: string
  events :: "(string \<times> string \<times> nat) list"
  timers :: "(int \<times> action) list"
  frames :: "nat list"
  focused :: "nat option"
  gtagCalls :: "(string \<times> string) list"
  listeners :: "listener list"

text \<open>\<open>this.modals.get(modalId)\<close>: the config object and its reference.\<close>

definition getModal :: "world \<Rightarrow> string \<Rightarrow> (nat \<times> config) option" where
  "getModal w modalId =
     (case map_of (modals w) modalId of
        None \<Rightarrow> None
      | Some r \<Rightarrow> if r < length (heap w) then Some (r, heap w ! r) else None)"

definition updConfig :: "nat \<Rightarrow> (config \<Rightarrow> config) \<Rightarrow> world \<Rightarrow> world" where
  "updConfig r f w = w\<lparr>heap := (heap w)[r := f (heap w ! r)]\<rparr>"

definition updElement :: "nat \<Rightarrow> (element \<Rightarrow> element) \<Rightarrow> world \<Rightarrow> world" where
  "updElement r f w = updConfig r (\<lambda>c. c\<lparr>element := f (element c)\<rparr>) w"

text \<open>
  The delay of \<open>setTimeout\<close> is a 32-bit \<open>long\<close>: the browser reduces the number modulo \<open>2^32\<close>
  into the signed range (\<open>NaN\<close> becomes 0) and then counts a negative delay as 0, so a delay
  above 2147483647 ms fires at once.
\<close>

definition toInt32 :: "int \<Rightarrow> int" where
  "toInt32 n = (n + 2147483648) mod 4294967296 - 2147483648"

definition timerDelay :: "int option \<Rightarrow> int" where
  "timerDelay d = (case d of None \<Rightarrow> 0 | Some ms \<Rightarrow> max 0 (toInt32 ms))"

text \<open>\<open>setTimeout(callback, delay)\<close> at instant \<open>now\<close>.\<close>

definition setTimeout :: "int \<Rightarrow> action \<Rightarrow> int option \<Rightarrow> world \<Rightarrow> world" where
  "setTimeout now a d w = w\<lparr>timers := timers w @ [(now + timerDelay d, a)]\<rparr>"

definition addListener :: "listener \<Rightarrow> world \<Rightarrow> world" where
  "addListener l w = w\<lparr>listeners := listeners w @ [l]\<rparr>"

definition dispatchModalEvent :: "string \<Rightarrow> string \<Rightarrow> nat \<Rightarrow> world \<Rightarrow> world" where
  "dispatchModalEvent eventName modalId r w = w\<lparr>events := events w @ [(eventName, modalId, r)]\<rparr>"

section \<open>Gating\<close>

definition storagePrefix :: string where
  "storagePrefix = ''modal_''"

definition isDeviceCompatible :: "host \<Rightarrow> config \<Rightarrow> bool" where
  "isDeviceCompatible h c =
     (let isMobile = (innerWidth h \<le> 768)
      in if isMobile then mobileEnabled c else desktopEnabled c)"

definition canShowModal :: "host \<Rightarrow> int \<Rightarrow> world \<Rightarrow> string \<Rightarrow> string \<Rightarrow> bool" where
  "canShowModal h now w modalId freq =
     (if (case getModal w modalId of None \<Rightarrow> False | Some (r, c) \<Rightarrow> devMode c) then True
      else
        let key = storagePrefix @ modalId in
        if freq = ''always'' then True
        else if freq = ''once-per-session'' then
          (case getItem (session w) (key @ ''_session'') of None \<Rightarrow> True | Some v \<Rightarrow> v = [])
        else if freq = ''once-per-day'' then
          (let lastDay = getItem (local w) (key @ ''_day'');
               todayKey = toDateString h now
           in lastDay \<noteq> Some todayKey)
        else if freq = ''once-per-week'' then
          (let lastWeek = orDefault (parseInt (nullableToString (getItem (local w) (key @ ''_week'')))) 0;
               thisWeek = getWeekNumber h now
           in lastWeek \<noteq> thisWeek)
        else True)"

definition trackModalDisplay :: "host \<Rightarrow> int \<Rightarrow> string \<Rightarrow> string \<Rightarrow> world \<Rightarrow> world" where
  "trackModalDisplay h now modalId freq w =
     (if (case getModal w modalId of None \<Rightarrow> False | Some (r, c) \<Rightarrow> devMode c) then w
      else
        let key = storagePrefix @ modalId in
        if freq = ''once-per-session'' then
          w\<lparr>session := setItem (key @ ''_session'') (numToString now) (session w)\<rparr>
        else if freq = ''once-per-day'' then
          w\<lparr>local := setItem (key @ ''_day'') (toDateString h now) (local w)\<rparr>
        else if freq = ''once-per-week'' then
          w\<lparr>local := setItem (key @ ''_week'') (numToString (getWeekNumber h now)) (local w)\<rparr>
        else w)"

definition resetFrequency :: "string \<Rightarrow> world \<Rightarrow> world" where
  "resetFrequency modalId w =
     (let key = storagePrefix @ modalId
      in w\<lparr>session := removeItem (key @ ''_session'') (session w),
           local := removeItem (key @ ''_week'') (removeItem (key @ ''_day'') (local w))\<rparr>)"

section \<open>Lifecycle\<close>

definition showModal :: "host \<Rightarrow> int \<Rightarrow> string \<Rightarrow> world \<Rightarrow> world" where
  "showModal h now modalId w =
     (case getModal w modalId of
        None \<Rightarrow> w
      | Some (r, c) \<Rightarrow>
          let w1 = updElement r (\<lambda>e. e\<lparr>styleDisplay := ''block'', ariaHidden := ''false''\<rparr>) w;
              w2 = w1\<lparr>frames := frames w1 @ [r]\<rparr>;
              w3 = (if hasFocusable (element c) then w2\<lparr>focused := Some r\<rparr> else w2);
              w4 = updConfig r (\<lambda>c. c\<lparr>isShown := True, lastShown := Some now\<rparr>) w3;
              w5 = trackModalDisplay h now modalId (frequency c) w4;
              w6 = w5\<lparr>bodyOverflow := ''hidden''\<rparr>;
              w7 = dispatchModalEvent ''modal:shown'' modalId r w6
          in if gtagAvailable h
             then w7\<lparr>gtagCalls := gtagCalls w7 @ [(modalId, triggerType c)]\<rparr> else w7)"

text \<open>The part shared by \<open>closeModal\<close> and \<open>ModalManager.forceClose\<close> after their guards.\<close>

definition hideNow :: "int \<Rightarrow> string \<Rightarrow> nat \<Rightarrow> world \<Rightarrow> world" where
  "hideNow now modalId r w =
     (let w1 = updElement r (\<lambda>e. e\<lparr>classActive := False\<rparr>) w;
          w2 = setTimeout now (HideElement r) (Some 300) w1;
          w3 = updConfig r (\<lambda>c. c\<lparr>isShown := False\<rparr>) w2;
          w4 = w3\<lparr>bodyOverflow := []\<rparr>
      in dispatchModalEvent ''modal:closed'' modalId r w4)"

definition closeModal :: "int \<Rightarrow> string \<Rightarrow> world \<Rightarrow> world" where
  "closeModal now modalId w =
     (case getModal w modalId of
        None \<Rightarrow> w
      | Some (r, c) \<Rightarrow>
          if \<not> isShown c then w
          else if devMode c then w
          else hideNow now modalId r w)"

definition forceClose :: "int \<Rightarrow> string \<Rightarrow> world \<Rightarrow> world" where
  "forceClose now modalId w =
     (case getModal w modalId of
        None \<Rightarrow> w
      | Some (r, c) \<Rightarrow> if \<not> isShown c then w else hideNow now modalId r w)"

definition triggerModal :: "host \<Rightarrow> int \<Rightarrow> string \<Rightarrow> world \<Rightarrow> world" where
  "triggerModal h now modalId w =
     (case getModal w modalId of
        None \<Rightarrow> w
      | Some (r, c) \<Rightarrow>
          if isShown c then w
          else if \<not> canShowModal h now w modalId (frequency c) then w
          else showModal h now modalId w)"

text \<open>The public API.\<close>

definition "show" :: "host \<Rightarrow> int \<Rightarrow> string \<Rightarrow> world \<Rightarrow> world" where
  "show h now modalId w = showModal h now modalId w"

definition hide :: "int \<Rightarrow> string \<Rightarrow> world \<Rightarrow> world" where
  "hide now modalId w = closeModal now modalId w"

text \<open>\<open>hideAll\<close>: \<open>Map.prototype.forEach\<close> visits the entries in insertion order.\<close>

definition hideAll :: "int \<Rightarrow> world \<Rightarrow> world" where
  "hideAll now w =
     foldl (\<lambda>w' (modalId, r).
              if r < length (heap w') \<and> isShown (heap w' ! r) then closeModal now modalId w'
              else w')
           w (modals w)"

definition enableDevMode :: "string \<Rightarrow> world \<Rightarrow> world" where
  "enableDevMode modalId w =
     (case getModal w modalId of
        None \<Rightarrow> w
      | Some (r, c) \<Rightarrow>
          updElement r (\<lambda>e. e\<lparr>attrDevMode := Some ''true''\<rparr>)
            (updConfig r (\<lambda>c. c\<lparr>devMode := True\<rparr>) w))"

definition disableDevMode :: "string \<Rightarrow> world \<Rightarrow> world" where
  "disableDevMode modalId w =
     (case getModal w modalId of
        None \<Rightarrow> w
      | Some (r, c) \<Rightarrow>
          updElement r (\<lambda>e. e\<lparr>attrDevMode := Some ''false''\<rparr>)
            (updConfig r (\<lambda>c. c\<lparr>devMode := False\<rparr>) w))"

section \<open>Registration\<close>

definition setupTimeTrigger :: "int \<Rightarrow> string \<Rightarrow> config \<Rightarrow> world \<Rightarrow> world" where
  "setupTimeTrigger now modalId c w =
     (let d = map_option (\<lambda>v. v * 1000 + delay c * 1000) (parseInt (triggerValue c))
      in setTimeout now (TriggerModal modalId) d w)"

definition setupScrollTrigger :: "string \<Rightarrow> config \<Rightarrow> world \<Rightarrow> world" where
  "setupScrollTrigger modalId c w =
     (let targetPercent = orDefault (parseInt (triggerValue c)) 50
      in addListener (ScrollTrigger modalId targetPercent (delay c)) w)"

definition setupClickTrigger :: "string \<Rightarrow> config \<Rightarrow> world \<Rightarrow> world" where
  "setupClickTrigger modalId c w =
     (let selector = triggerValue c
      in if selector = [] then w
         else addListener (ClickTrigger modalId selector (delay c)) w)"

definition setupExitIntentTrigger :: "host \<Rightarrow> string \<Rightarrow> config \<Rightarrow> world \<Rightarrow> world" where
  "setupExitIntentTrigger h modalId c w =
     (if innerWidth h \<le> 768 then w else addListener (ExitTrigger modalId (delay c)) w)"

definition setupPageLoadTrigger :: "int \<Rightarrow> string \<Rightarrow> config \<Rightarrow> world \<Rightarrow> world" where
  "setupPageLoadTrigger now modalId c w =
     setTimeout now (TriggerModal modalId) (Some (delay c * 1000)) w"

definition setupModalTrigger :: "host \<Rightarrow> int \<Rightarrow> string \<Rightarrow> config \<Rightarrow> world \<Rightarrow> world" where
  "setupModalTrigger h now modalId c w =
     (if triggerType c = ''time'' then setupTimeTrigger now modalId c w
      else if triggerType c = ''scroll'' then setupScrollTrigger modalId c w
      else if triggerType c = ''click'' then setupClickTrigger modalId c w
      else if triggerType c = ''exit'' then setupExitIntentTrigger h modalId c w
      else if triggerType c = ''page-load'' then setupPageLoadTrigger now modalId c w
      else if triggerType c = ''manual'' then w
      else w)"

text \<open>
  \<open>setupModalEvents(element)\<close> reads the id from the element and the config from the map;
  it is only called right after \<open>this.modals.set(modalId, config)\<close>.
\<close>

definition setupModalEvents :: "int \<Rightarrow> string \<Rightarrow> world \<Rightarrow> world" where
  "setupModalEvents now modalId w =
     (case getModal w modalId of
        None \<Rightarrow> w
      | Some (r, c) \<Rightarrow>
          let e = element c;
              w1 = w\<lparr>listeners := listeners w @ replicate (closeButtons e) (CloseButtonClick modalId)\<rparr>;
              w2 = (if hasBackdrop e \<and> closeOnOutsideClick c
                    then addListener (BackdropClick modalId) w1 else w1);
              w3 = addListener (EscapeKey modalId r) w2;
              w4 = (if autoCloseAfter c > 0 \<and> \<not> devMode c
                    then setTimeout now (AutoClose r modalId) (Some (autoCloseAfter c * 1000)) w3
                    else w3);
              w5 = w4\<lparr>listeners := listeners w4 @ map (FormSubmit modalId) (formActions e)\<rparr>
          in w5\<lparr>listeners := listeners w5 @ replicate (otherButtons e) (ButtonClick modalId)\<rparr>)"

definition registerModal :: "host \<Rightarrow> int \<Rightarrow> string \<Rightarrow> config \<Rightarrow> world \<Rightarrow> world" where
  "registerModal h now modalId c w =
     (if \<not> isDeviceCompatible h c then w
      else if \<not> canShowModal h now w modalId (frequency c) then w
      else
        let r = length (heap w);
            w1 = w\<lparr>heap := heap w @ [c], modals := AList.update modalId r (modals w)\<rparr>;
            w2 = setupModalTrigger h now modalId c w1
        in setupModalEvents now modalId w2)"

section \<open>Timers\<close>

text \<open>
  The bodies of the callbacks: a trigger timer calls \<open>triggerModal\<close>; the auto-close callback
  of \<open>setupModalEvents\<close> tests \<open>isShown\<close> of the config it closed over and calls \<open>closeModal\<close>;
  the callback of \<open>closeModal\<close> and \<open>forceClose\<close> hides the element.
\<close>

definition runAction :: "host \<Rightarrow> int \<Rightarrow> action \<Rightarrow> world \<Rightarrow> world" where
  "runAction h now a w =
     (case a of
        TriggerModal modalId \<Rightarrow> triggerModal h now modalId w
      | AutoClose r modalId \<Rightarrow>
          if r < length (heap w) \<and> isShown (heap w ! r) then closeModal now modalId w else w
      | HideElement r \<Rightarrow>
          updElement r (\<lambda>e. e\<lparr>styleDisplay := ''none'', ariaHidden := ''true''\<rparr>) w)"

text \<open>
  The event loop runs the pending callback that is due first (the earlier \<open>setTimeout\<close>
  call first among equal due times), at its due time.
\<close>

definition popTimer :: "(int \<times> action) list \<Rightarrow> ((int \<times> action) \<times> (int \<times> action) list) option" where
  "popTimer ts =
     (case ts of
        [] \<Rightarrow> None
      | t # rest \<Rightarrow>
          let due = foldl min (fst t) (map fst rest)
          in (case List.find (\<lambda>x. fst x = due) ts of
                None \<Rightarrow> None
              | Some x \<Rightarrow> Some (x, remove1 x ts)))"

definition tick :: "host \<Rightarrow> world \<Rightarrow> world option" where
  "tick h w =
     (case popTimer (timers w) of
        None \<Rightarrow> None
      | Some ((due, a), rest) \<Rightarrow> Some (runAction h due a (w\<lparr>timers := rest\<rparr>)))"

text \<open>
  Run pending callbacks until none is left, at most \<open>n\<close> of them; \<open>None\<close> when callbacks are
  still pending after \<open>n\<close>.
\<close>

fun runTimers :: "nat \<Rightarrow> host \<Rightarrow> world \<Rightarrow> world option" where
  "runTimers 0 h w = (if timers w = [] then Some w else None)"
| "runTimers (Suc n) h w =
     (case tick h w of None \<Rightarrow> Some w | Some w' \<Rightarrow> runTimers n h w')"

section \<open>Storage cleanup\<close>

text \<open>
  The loop of \<open>cleanupOldData\<close>: \<open>i\<close> counts up and \<open>this.storage.session.length\<close> is read
  again before every iteration.
\<close>

function cleanupLoop :: "int \<Rightarrow> nat \<Rightarrow> storage \<Rightarrow> storage" where
  "cleanupLoop oneWeekAgo i s =
     (if i < length s then
        (let key = fst (s ! i) in
         if key \<noteq> [] \<and> startsWith key storagePrefix then
           (case getItem s key of
              None \<Rightarrow> cleanupLoop oneWeekAgo (Suc i) s
            | Some v \<Rightarrow>
                if v \<noteq> [] \<and> (case parseInt v of None \<Rightarrow> False | Some n \<Rightarrow> n < oneWeekAgo)
                then cleanupLoop oneWeekAgo (Suc i) (removeItem key s)
                else cleanupLoop oneWeekAgo (Suc i) s)
         else cleanupLoop oneWeekAgo (Suc i) s)
      else s)"
  by pat_completeness auto
termination
  by (relation "measure (\<lambda>(w, i, s). length s - i)")
     (auto simp: removeItem_def intro: le_less_trans [OF diff_le_mono [OF length_delete_le]])

declare cleanupLoop.simps [simp del]

definition cleanupOldData :: "int \<Rightarrow> world \<Rightarrow> world" where
  "cleanupOldData now w =
     (let oneWeekAgo = now - 7 * 24 * 60 * 60 * 1000
      in w\<lparr>session := cleanupLoop oneWeekAgo 0 (session w)\<rparr>)"

section \<open>Status query\<close>

text \<open>The snapshot returned by \<open>getStatus\<close>; absent properties are \<open>None\<close>.\<close>

record status =
  isRegistered :: bool
  statusIsShown :: bool
  statusLastShown :: "int option"
  canShow :: bool
  statusDevMode :: bool
  statusTriggerType :: "string option"
  statusFrequency :: "string option"

definition getStatus :: "host \<Rightarrow> int \<Rightarrow> world \<Rightarrow> string \<Rightarrow> status" where
  "getStatus h now w modalId =
     (case getModal w modalId of
        Some (r, c) \<Rightarrow>
          \<lparr>isRegistered = True, statusIsShown = isShown c, statusLastShown = lastShown c,
           canShow = canShowModal h now w modalId (frequency c), statusDevMode = devMode c,
           statusTriggerType = Some (triggerType c), statusFrequency = Some (frequency c)\<rparr>
      | None \<Rightarrow>
          \<lparr>isRegistered = False, statusIsShown = False, statusLastShown = None,
           canShow = False, statusDevMode = False,
           statusTriggerType = None, statusFrequency = None\<rparr>)"

section \<open>Concrete pages\<close>

text \<open>
  A desktop browser whose clock stays within 1970 (UTC): the year starts at instant 0 and
  the date string is the ordinal of the day. It is used to evaluate the operations on
  concrete pages.
\<close>

definition desktop1970 :: host where
  "desktop1970 =
     \<lparr>innerWidth = 1024,
      getFullYear = (\<lambda>t. 1970),
      newDateJan1 = (\<lambda>y. 0),
      toDateString = (\<lambda>t. ''day '' @ numToString (t div 86400000)),
      gtagAvailable = False\<rparr>"

definition emptyPage :: world where
  "emptyPage =
     \<lparr>heap = [], modals = [], session = [], local = [], bodyOverflow = [], events = [],
      timers = [], frames = [], focused = None, gtagCalls = [], listeners = []\<rparr>"

definition plainElement :: element where
  "plainElement =
     \<lparr>styleDisplay = ''none'', ariaHidden = ''true'', attrDevMode = None, classActive = False,
      closeButtons = 1, hasBackdrop = True, formActions = [], otherButtons = 0,
      hasFocusable = True\<rparr>"

text \<open>What \<open>parseModalConfig\<close> returns for an element that sets no option but \<open>manual\<close>.\<close>

definition manualConfig :: config where
  "manualConfig =
     \<lparr>element = plainElement, triggerType = ''manual'', triggerValue = ''0'',
      frequency = ''once-per-session'', delay = 0, mobileEnabled = True, desktopEnabled = True,
      closeOnOutsideClick = True, autoCloseAfter = 0, devMode = False, isShown = False,
      lastShown = None\<rparr>"

text \<open>The page one second after load, with the modal \<open>promo\<close> registered from config \<open>c\<close>.\<close>

definition registeredPage :: "config \<Rightarrow> world" where
  "registeredPage c = registerModal desktop1970 1000 ''promo'' c emptyPage"

text \<open>The page after the modal was shown at 2000 and closed at 3000.\<close>

definition closedPage :: world where
  "closedPage = closeModal 3000 ''promo'' (show desktop1970 2000 ''promo'' (registeredPage manualConfig))"

text \<open>A modal that opens 10 seconds after load and is to close by itself after 5 seconds.\<close>

definition timedConfig :: config where
  "timedConfig = manualConfig\<lparr>triggerType := ''time'', triggerValue := ''10'',
      frequency := ''always'', autoCloseAfter := 5\<rparr>"

text \<open>The page of \<open>timedConfig\<close> once the callback due at 6000 has run.\<close>

definition timedWaiting :: world where
  "timedWaiting =
     emptyPage\<lparr>heap := [timedConfig], modals := [(''promo'', 0)],
       timers := [(11000, TriggerModal ''promo'')],
       listeners := [CloseButtonClick ''promo'', BackdropClick ''promo'', EscapeKey ''promo'' 0]\<rparr>"

text \<open>Two session records written more than seven days before instant 1700000000000.\<close>

definition staleSession :: storage where
  "staleSession = [(''modal_a_session'', ''1690000000000''), (''modal_b_session'', ''1690000000001'')]"

text \<open>A fresh page load in a session that already holds a display record of \<open>promo\<close>.\<close>

definition recordedSession :: world where
  "recordedSession = emptyPage\<lparr>session := [(''modal_promo_session'', ''2000'')]\<rparr>"

text \<open>A page with a daily modal and a day record left from the day before (day 0).\<close>

definition staleDayPage :: world where
  "staleDayPage =
     (registeredPage (manualConfig\<lparr>frequency := ''once-per-day''\<rparr>))
       \<lparr>local := [(''modal_promo_day'', ''day 0'')]\<rparr>"

section \<open>Numbers and strings\<close>

lemma ceilDiv_ceiling: "ceilDiv a b = \<lceil>real_of_int a / real_of_int b\<rceil>"
proof -
  have "\<lfloor>real_of_int (- a) / real_of_int b\<rfloor> = (- a) div b"
    by (rule floor_divide_of_int_eq)
  then show ?thesis
    unfolding ceilDiv_def ceiling_def by simp
qed

lemma natToString_ne: "natToString n \<noteq> []"
  by (subst natToString.simps) simp

lemma digit_nth: "d < 10 \<Longrightarrow> digitValue (''0123456789'' ! d) = Some d"
proof -
  assume "d < 10"
  then have "d \<in> {0,1,2,3,4,5,6,7,8,9}" by auto
  then show ?thesis unfolding digitValue_def by auto
qed

lemma isRadixDigit_nth: "d < 10 \<Longrightarrow> isRadixDigit 10 (''0123456789'' ! d)"
  by (simp add: isRadixDigit_def digit_nth)

lemma natToString_digits: "\<forall>c \<in> set (natToString n). isRadixDigit 10 c"
proof (induction n rule: natToString.induct)
  case (1 n)
  show ?case
  proof (cases "n < 10")
    case True
    then show ?thesis by (subst natToString.simps) (simp add: isRadixDigit_nth)
  next
    case False
    with 1 show ?thesis
      by (subst natToString.simps) (simp add: isRadixDigit_nth)
  qed
qed

lemma addDigit_nth: "d < 10 \<Longrightarrow> addDigit 10 acc (''0123456789'' ! d) = acc * 10 + int d"
  by (simp add: addDigit_def digit_nth)

lemma natToString_value: "foldl (addDigit 10) 0 (natToString n) = int n"
proof (induction n rule: natToString.induct)
  case (1 n)
  show ?case
  proof (cases "n < 10")
    case True
    then show ?thesis by (subst natToString.simps) (simp add: addDigit_nth)
  next
    case False
    with 1 have "foldl (addDigit 10) 0 (natToString (n div 10)) = int (n div 10)" by simp
    moreover have "int (n div 10) * 10 + int (n mod 10) = int n"
      by (simp add: zdiv_int zmod_int)
    ultimately show ?thesis using False
      by (subst natToString.simps) (simp add: addDigit_nth)
  qed
qed

lemma parseDigits_natToString: "parseDigits 10 (natToString n) = Some (int n)"
proof -
  have tw: "takeWhile (isRadixDigit 10) (natToString n) = natToString n"
    using natToString_digits by simp
  show ?thesis
    unfolding parseDigits_def Let_def tw by (simp add: natToString_ne natToString_value)
qed

lemma natToString_hd: "hd (natToString n) \<in> set ''0123456789''"
proof (induction n rule: natToString.induct)
  case (1 n)
  show ?case
  proof (cases "n < 10")
    case True
    then have "n \<in> {0,1,2,3,4,5,6,7,8,9}" by auto
    then show ?thesis by (subst natToString.simps) auto
  next
    case False
    with 1 show ?thesis
      by (subst natToString.simps) (simp add: natToString_ne)
  qed
qed

lemma natToString_no_prefix:
  "take 2 (natToString n) \<noteq> ''0x''" "take 2 (natToString n) \<noteq> ''0X''"
proof -
  have "\<forall>c \<in> set (take 2 (natToString n)). isRadixDigit 10 c"
    using natToString_digits by (meson in_set_takeD)
  moreover have "\<not> isRadixDigit 10 CHR ''x''" "\<not> isRadixDigit 10 CHR ''X''"
    by (simp_all add: isRadixDigit_def digitValue_def)
  ultimately show "take 2 (natToString n) \<noteq> ''0x''" "take 2 (natToString n) \<noteq> ''0X''"
    by auto
qed

lemma parseInt_natToString: "parseInt (natToString n) = Some (int n)"
proof -
  let ?s = "natToString n"
  have hd: "hd ?s \<in> set ''0123456789''" by (rule natToString_hd)
  have ne: "?s \<noteq> []" by (rule natToString_ne)
  from hd have nws: "\<not> isWhiteSpace (hd ?s)" by (auto simp: isWhiteSpace_def)
  with ne have dw: "dropWhile isWhiteSpace ?s = ?s" by (cases ?s) auto
  from hd have sg: "hd ?s \<noteq> CHR ''-''" "hd ?s \<noteq> CHR ''+''" by auto
  show ?thesis
    unfolding parseInt_def
    by (simp add: dw sg natToString_no_prefix parseDigits_natToString)
qed

lemma parseInt_numToString: "parseInt (numToString n) = Some n"
proof (cases "n < 0")
  case False
  then show ?thesis by (simp add: numToString_def parseInt_natToString)
next
  case True
  let ?s = "natToString (nat (- n))"
  have "parseInt (CHR ''-'' # ?s) = map_option uminus (parseDigits 10 ?s)"
    unfolding parseInt_def by (simp add: isWhiteSpace_def natToString_no_prefix)
  with True show ?thesis by (simp add: numToString_def parseDigits_natToString)
qed

lemma numToString_ne: "numToString n \<noteq> []"
  by (simp add: numToString_def natToString_ne)

lemma ceilDiv_first_week: "0 < d \<Longrightarrow> d \<le> weekMs \<Longrightarrow> ceilDiv d weekMs = 1"
  unfolding ceilDiv_def weekMs_def
  by (simp add: div_pos_neg_trivial)

lemma timerDelay_small:
  "0 \<le> ms \<Longrightarrow> ms < 2147483648 \<Longrightarrow> timerDelay (Some ms) = ms"
  by (simp add: timerDelay_def toInt32_def)

lemma orDefault_zero [simp]: "orDefault (Some n) 0 = n"
  by (simp add: orDefault_def)

section \<open>Storage lemmas\<close>

lemma getItem_setItem [simp]:
  "getItem (setItem k v s) k' = (if k' = k then Some v else getItem s k')"
  by (simp add: getItem_def setItem_def update_conv')

lemma getItem_removeItem [simp]:
  "getItem (removeItem k s) k' = (if k' = k then None else getItem s k')"
  by (simp add: getItem_def removeItem_def delete_conv')

lemma getItem_None_iff: "getItem s k = None \<longleftrightarrow> k \<notin> fst ` set s"
  by (simp add: getItem_def map_of_eq_None_iff)

lemma remove_set_absent: "getItem s k = None \<Longrightarrow> removeItem k (setItem k v s) = s"
  by (simp add: removeItem_def setItem_def delete_update_same getItem_None_iff)

lemma remove_absent: "getItem s k = None \<Longrightarrow> removeItem k s = s"
  by (simp add: removeItem_def getItem_None_iff)

lemma removeItem_setItem_other:
  "k \<noteq> l \<Longrightarrow> removeItem l (setItem k v s) = setItem k v (removeItem l s)"
  by (simp add: removeItem_def setItem_def delete_update)

section \<open>What each operation changes\<close>

lemma getModal_heap_cong:
  "modals w' = modals w \<Longrightarrow> heap w' = heap w \<Longrightarrow> getModal w' modalId = getModal w modalId"
  by (auto simp: getModal_def split: option.splits)

lemma getModal_SomeD:
  "getModal w modalId = Some (r, c) \<Longrightarrow>
     map_of (modals w) modalId = Some r \<and> r < length (heap w) \<and> heap w ! r = c"
  by (auto simp: getModal_def split: option.splits if_splits)

lemma getModal_timers_update [simp]: "getModal (w\<lparr>timers := ts\<rparr>) m = getModal w m"
  by (rule getModal_heap_cong) simp_all

lemma resetFrequency_getModal [simp]:
  "getModal (resetFrequency modalId w) m = getModal w m"
  by (rule getModal_heap_cong) (simp_all add: resetFrequency_def Let_def)

lemma trackModalDisplay_frame [simp]:
  "modals (trackModalDisplay h now modalId f w) = modals w"
  "heap (trackModalDisplay h now modalId f w) = heap w"
  by (simp_all add: trackModalDisplay_def Let_def)

lemma showModal_unknown: "getModal w modalId = None \<Longrightarrow> showModal h now modalId w = w"
  by (simp add: showModal_def)

lemma showModal_getModal:
  assumes "getModal w modalId = Some (r, c)"
  shows "getModal (showModal h now modalId w) modalId =
           Some (r, c\<lparr>element := (element c)\<lparr>styleDisplay := ''block'', ariaHidden := ''false''\<rparr>,
                      isShown := True, lastShown := Some now\<rparr>)"
  using assms getModal_SomeD [OF assms]
  by (simp add: showModal_def Let_def getModal_def updElement_def updConfig_def
      dispatchModalEvent_def)

lemma showModal_storage:
  assumes "getModal w modalId = Some (r, c)"
  shows "session (showModal h now modalId w) =
           (if \<not> devMode c \<and> frequency c = ''once-per-session''
            then setItem (storagePrefix @ modalId @ ''_session'') (numToString now) (session w)
            else session w)"
    and "local (showModal h now modalId w) =
           (if \<not> devMode c \<and> frequency c = ''once-per-day''
            then setItem (storagePrefix @ modalId @ ''_day'') (toDateString h now) (local w)
            else if \<not> devMode c \<and> frequency c = ''once-per-week''
            then setItem (storagePrefix @ modalId @ ''_week'')
                   (numToString (getWeekNumber h now)) (local w)
            else local w)"
  using assms getModal_SomeD [OF assms]
  by (simp_all add: showModal_def Let_def getModal_def updElement_def updConfig_def
        dispatchModalEvent_def trackModalDisplay_def)

lemma showModal_fields:
  assumes "getModal w modalId = Some (r, c)"
  shows "events (showModal h now modalId w) = events w @ [(''modal:shown'', modalId, r)]"
    and "timers (showModal h now modalId w) = timers w"
    and "bodyOverflow (showModal h now modalId w) = ''hidden''"
    and "modals (showModal h now modalId w) = modals w"
    and "listeners (showModal h now modalId w) = listeners w"
  using assms getModal_SomeD [OF assms]
  by (simp_all add: showModal_def Let_def getModal_def updElement_def updConfig_def
        dispatchModalEvent_def trackModalDisplay_def)

text \<open>Showing a modal hands no callback to \<open>setTimeout\<close>.\<close>

lemma showModal_timers: "timers (showModal h now modalId w) = timers w"
  by (cases "getModal w modalId") (auto simp: showModal_unknown showModal_fields)

lemma devCheck_showModal:
  "(case getModal (showModal h now modalId w) modalId of
      None \<Rightarrow> False | Some (r, c) \<Rightarrow> devMode c)
   = (case getModal w modalId of None \<Rightarrow> False | Some (r, c) \<Rightarrow> devMode c)"
  by (cases "getModal w modalId") (auto simp: showModal_unknown showModal_getModal)

lemma hideNow_getModal:
  assumes "getModal w modalId = Some (r, c)"
  shows "getModal (hideNow now modalId r w) modalId =
           Some (r, c\<lparr>element := (element c)\<lparr>classActive := False\<rparr>, isShown := False\<rparr>)"
  using assms getModal_SomeD [OF assms]
  by (simp add: hideNow_def Let_def getModal_def updElement_def updConfig_def
      dispatchModalEvent_def setTimeout_def)

lemma hideNow_fields:
  "bodyOverflow (hideNow now modalId r w) = []"
  "events (hideNow now modalId r w) = events w @ [(''modal:closed'', modalId, r)]"
  "timers (hideNow now modalId r w) = timers w @ [(now + 300, HideElement r)]"
  "session (hideNow now modalId r w) = session w"
  "local (hideNow now modalId r w) = local w"
  by (simp_all add: hideNow_def Let_def updElement_def updConfig_def dispatchModalEvent_def
      setTimeout_def timerDelay_small)

lemma closeModal_devMode:
  "getModal w modalId = Some (r, c) \<Longrightarrow> devMode c \<Longrightarrow> closeModal now modalId w = w"
  by (simp add: closeModal_def)

text \<open>The auto-close callback does nothing to a modal in dev mode.\<close>

lemma autoClose_devMode:
  "getModal w modalId = Some (r, c) \<Longrightarrow> devMode c \<Longrightarrow>
     runAction h now (AutoClose r' modalId) w = w"
  by (simp add: runAction_def closeModal_devMode)

lemma setupModalTrigger_frame [simp]:
  "heap (setupModalTrigger h now modalId c w) = heap w"
  "modals (setupModalTrigger h now modalId c w) = modals w"
  "session (setupModalTrigger h now modalId c w) = session w"
  "local (setupModalTrigger h now modalId c w) = local w"
  "events (setupModalTrigger h now modalId c w) = events w"
  by (simp_all add: setupModalTrigger_def setupTimeTrigger_def setupScrollTrigger_def
      setupClickTrigger_def setupExitIntentTrigger_def setupPageLoadTrigger_def
      setTimeout_def addListener_def Let_def)

lemma setupModalEvents_frame [simp]:
  "heap (setupModalEvents now modalId w) = heap w"
  "modals (setupModalEvents now modalId w) = modals w"
  "session (setupModalEvents now modalId w) = session w"
  "local (setupModalEvents now modalId w) = local w"
  "events (setupModalEvents now modalId w) = events w"
  by (simp_all add: setupModalEvents_def setTimeout_def addListener_def Let_def
      split: option.splits)

lemma registerModal_frame [simp]:
  "session (registerModal h now modalId c w) = session w"
  "local (registerModal h now modalId c w) = local w"
  "events (registerModal h now modalId c w) = events w"
  by (simp_all add: registerModal_def Let_def)

lemma registerModal_skip_device:
  "\<not> isDeviceCompatible h c \<Longrightarrow> registerModal h now modalId c w = w"
  by (simp add: registerModal_def)

lemma registerModal_stored:
  assumes "isDeviceCompatible h c" and "canShowModal h now w modalId (frequency c)"
  shows "getModal (registerModal h now modalId c w) modalId = Some (length (heap w), c)"
proof -
  let ?w1 = "w\<lparr>heap := heap w @ [c], modals := AList.update modalId (length (heap w)) (modals w)\<rparr>"
  have "getModal (registerModal h now modalId c w) modalId = getModal ?w1 modalId"
    using assms by (intro getModal_heap_cong) (simp_all add: registerModal_def Let_def)
  also have "\<dots> = Some (length (heap w), c)"
    by (simp add: getModal_def update_conv')
  finally show ?thesis .
qed

text \<open>With nothing stored for the id, every frequency passes, except in week number 0.\<close>

lemma canShowModal_no_record:
  assumes "getItem (session w) (storagePrefix @ modalId @ ''_session'') = None"
    and "getItem (local w) (storagePrefix @ modalId @ ''_day'') = None"
    and "getItem (local w) (storagePrefix @ modalId @ ''_week'') = None"
    and "getWeekNumber h now \<noteq> 0"
  shows "canShowModal h now w modalId freq"
  using assms
  by (simp add: canShowModal_def nullableToString_def parseInt_def parseDigits_def
      isWhiteSpace_def isRadixDigit_def digitValue_def orDefault_def)

lemma reset_after_show_storage:
  assumes "getItem (session w) (storagePrefix @ modalId @ ''_session'') = None"
    and "getItem (local w) (storagePrefix @ modalId @ ''_day'') = None"
    and "getItem (local w) (storagePrefix @ modalId @ ''_week'') = None"
  shows "session (resetFrequency modalId (show h t0 modalId w)) = session w"
    and "local (resetFrequency modalId (show h t0 modalId w)) = local w"
proof -
  show "session (resetFrequency modalId (show h t0 modalId w)) = session w"
  proof (cases "getModal w modalId")
    case None
    then show ?thesis using assms
      by (simp add: show_def showModal_unknown resetFrequency_def remove_absent)
  next
    case (Some p)
    then obtain r c where "getModal w modalId = Some (r, c)" by (cases p) auto
    then show ?thesis using assms
      by (simp add: show_def showModal_storage resetFrequency_def remove_absent remove_set_absent)
  qed
  show "local (resetFrequency modalId (show h t0 modalId w)) = local w"
  proof (cases "getModal w modalId")
    case None
    then show ?thesis using assms
      by (simp add: show_def showModal_unknown resetFrequency_def remove_absent)
  next
    case (Some p)
    then obtain r c where "getModal w modalId = Some (r, c)" by (cases p) auto
    then show ?thesis using assms
      by (simp add: show_def showModal_storage resetFrequency_def remove_absent remove_set_absent
          removeItem_setItem_other)
  qed
qed

lemma parseInt_null: "parseInt ''null'' = None"
  by (simp add: parseInt_def parseDigits_def isWhiteSpace_def isRadixDigit_def digitValue_def)

lemma resetFrequency_records:
  "getItem (session (resetFrequency modalId w)) (storagePrefix @ modalId @ ''_session'') = None"
  "getItem (local (resetFrequency modalId w)) (storagePrefix @ modalId @ ''_day'') = None"
  "getItem (local (resetFrequency modalId w)) (storagePrefix @ modalId @ ''_week'') = None"
  by (simp_all add: resetFrequency_def Let_def)

lemma canShowModal_after_reset:
  "canShowModal h t (resetFrequency modalId w) modalId kind
   = ((case getModal w modalId of None \<Rightarrow> False | Some (r, c) \<Rightarrow> devMode c)
      \<or> kind \<noteq> ''once-per-week'' \<or> getWeekNumber h t \<noteq> 0)"
  unfolding canShowModal_def
  by (simp add: resetFrequency_records nullableToString_def parseInt_null orDefault_def)

lemma statusDevMode_eq:
  "statusDevMode (getStatus h t w modalId)
   = (case getModal w modalId of None \<Rightarrow> False | Some (r, c) \<Rightarrow> devMode c)"
  by (simp add: getStatus_def split: option.splits)

section \<open>The concrete pages\<close>

lemma manualConfig_simps:
  "devMode manualConfig = False" "isShown manualConfig = False"
  "frequency manualConfig = ''once-per-session''" "desktopEnabled manualConfig"
  "triggerType manualConfig = ''manual''" "autoCloseAfter manualConfig = 0"
  by (simp_all add: manualConfig_def)

lemma desktop1970_week: "0 < t \<Longrightarrow> t \<le> 604800000 \<Longrightarrow> getWeekNumber desktop1970 t = 1"
  using ceilDiv_first_week [of t] by (simp add: getWeekNumber_def desktop1970_def weekMs_def)

lemma registeredPage_getModal:
  assumes "desktopEnabled c"
  shows "getModal (registeredPage c) ''promo'' = Some (0, c)"
proof -
  have "isDeviceCompatible desktop1970 c"
    using assms by (simp add: isDeviceCompatible_def desktop1970_def)
  moreover have "canShowModal desktop1970 1000 emptyPage ''promo'' (frequency c)"
    by (rule canShowModal_no_record)
       (simp_all add: emptyPage_def getItem_def desktop1970_week)
  ultimately show ?thesis
    unfolding registeredPage_def by (simp add: registerModal_stored emptyPage_def)
qed

lemma registeredPage_storage [simp]:
  "session (registeredPage c) = []" "local (registeredPage c) = []" "events (registeredPage c) = []"
  by (simp_all add: registeredPage_def emptyPage_def)

lemma devShown_getModal:
  "getModal (showModal desktop1970 2000 ''promo'' (registeredPage (manualConfig\<lparr>devMode := True\<rparr>)))
     ''promo''
   = Some (0, manualConfig\<lparr>devMode := True,
         element := (element manualConfig)\<lparr>styleDisplay := ''block'', ariaHidden := ''false''\<rparr>,
         isShown := True, lastShown := Some 2000\<rparr>)"
proof -
  have g: "getModal (registeredPage (manualConfig\<lparr>devMode := True\<rparr>)) ''promo''
            = Some (0, manualConfig\<lparr>devMode := True\<rparr>)"
    by (rule registeredPage_getModal) (simp add: manualConfig_simps)
  show ?thesis using showModal_getModal [OF g, of desktop1970 2000] by simp
qed

lemma timedPage_eval:
  "registeredPage timedConfig =
     emptyPage\<lparr>heap := [timedConfig], modals := [(''promo'', 0)],
       timers := [(11000, TriggerModal ''promo''), (6000, AutoClose 0 ''promo'')],
       listeners := [CloseButtonClick ''promo'', BackdropClick ''promo'', EscapeKey ''promo'' 0]\<rparr>"
proof -
  have p: "parseInt ''10'' = Some 10" by code_simp
  show ?thesis
    by (simp add: registeredPage_def registerModal_def isDeviceCompatible_def desktop1970_def
        canShowModal_def getModal_def emptyPage_def timedConfig_def manualConfig_def Let_def
        setupModalTrigger_def setupTimeTrigger_def setupModalEvents_def plainElement_def
        addListener_def setTimeout_def timerDelay_small p)
qed

lemma timedPage_tick1:
  "tick desktop1970 (registeredPage timedConfig) = Some timedWaiting"
  unfolding timedPage_eval
  by (simp add: tick_def popTimer_def runAction_def emptyPage_def timedWaiting_def
      timedConfig_def manualConfig_def)

lemma timedWaiting_getModal: "getModal timedWaiting ''promo'' = Some (0, timedConfig)"
  by (simp add: timedWaiting_def getModal_def emptyPage_def)

lemma timedPage_tick2:
  "tick desktop1970 timedWaiting =
     Some (showModal desktop1970 11000 ''promo'' (timedWaiting\<lparr>timers := []\<rparr>))"
proof -
  have c: "canShowModal desktop1970 11000 (timedWaiting\<lparr>timers := []\<rparr>) ''promo'' ''always''"
    by (simp add: canShowModal_def)
  have t: "timers timedWaiting = [(11000, TriggerModal ''promo'')]"
    by (simp add: timedWaiting_def emptyPage_def)
  show ?thesis
    by (simp add: tick_def popTimer_def t runAction_def triggerModal_def timedWaiting_getModal c
        timedConfig_def manualConfig_simps)
qed

lemma stale_parse:
  "parseInt ''1690000000000'' = Some 1690000000000"
  "parseInt ''1690000000001'' = Some 1690000000001"
  by code_simp+

text \<open>
  On a fresh page load in the same session, a record of an earlier display makes
  \<open>registerModal\<close> skip a dev-mode modal on a compatible device: \<open>canShowModal\<close> looks the
  config up in the map, where it is stored only after the check, so the dev override is
  not seen and the record blocks. The README describes dev mode as ignoring frequency.
\<close>

lemma devMode_registration_frequency_skip:
  "isDeviceCompatible desktop1970 (manualConfig\<lparr>devMode := True\<rparr>)
   \<and> registerModal desktop1970 5000 ''promo'' (manualConfig\<lparr>devMode := True\<rparr>) recordedSession
       = recordedSession"
  by (simp add: registerModal_def isDeviceCompatible_def desktop1970_def manualConfig_simps
      canShowModal_def getModal_def emptyPage_def storagePrefix_def getItem_def
      recordedSession_def)

lemma staleDayPage_getModal:
  "getModal staleDayPage ''promo'' = Some (0, manualConfig\<lparr>frequency := ''once-per-day''\<rparr>)"
proof -
  have "getModal staleDayPage ''promo''
          = getModal (registeredPage (manualConfig\<lparr>frequency := ''once-per-day''\<rparr>)) ''promo''"
    unfolding staleDayPage_def by (rule getModal_heap_cong) simp_all
  also have "\<dots> = Some (0, manualConfig\<lparr>frequency := ''once-per-day''\<rparr>)"
    by (rule registeredPage_getModal) (simp add: manualConfig_simps)
  finally show ?thesis .
qed

section \<open>Frequency gating after a display\<close>

text \<open>
  Claim C1. Let the modal be registered. If it is not in dev mode and is shown under
  \<open>once-per-session\<close>, \<open>once-per-day\<close> or \<open>once-per-week\<close>, then \<open>canShowModal\<close> for the same
  id and kind is false afterwards, as long as the check happens in the same session, on
  the same date string, or in the same week number respectively. If it is in dev mode,
  \<open>canShowModal\<close> is true for every frequency, whatever the storages hold.
\<close>

theorem show_blocks_repeat:
  assumes "getModal w modalId = Some (r, c)"
  shows "(\<not> devMode c \<and> frequency c = ''once-per-session'' \<longrightarrow>
            \<not> canShowModal h t1 (showModal h t0 modalId w) modalId ''once-per-session'')
       \<and> (\<not> devMode c \<and> frequency c = ''once-per-day'' \<and> toDateString h t1 = toDateString h t0 \<longrightarrow>
            \<not> canShowModal h t1 (showModal h t0 modalId w) modalId ''once-per-day'')
       \<and> (\<not> devMode c \<and> frequency c = ''once-per-week'' \<and> getWeekNumber h t1 = getWeekNumber h t0 \<longrightarrow>
            \<not> canShowModal h t1 (showModal h t0 modalId w) modalId ''once-per-week'')
       \<and> (devMode c \<longrightarrow> (\<forall>freq. canShowModal h t1 w modalId freq))"
proof (intro conjI impI allI)
  note after = showModal_getModal [OF assms, of h t0] showModal_storage [OF assms, of h t0]
  show "\<not> canShowModal h t1 (showModal h t0 modalId w) modalId ''once-per-session''"
    if "\<not> devMode c \<and> frequency c = ''once-per-session''"
    using that by (simp add: canShowModal_def after numToString_ne)
  show "\<not> canShowModal h t1 (showModal h t0 modalId w) modalId ''once-per-day''"
    if "\<not> devMode c \<and> frequency c = ''once-per-day'' \<and> toDateString h t1 = toDateString h t0"
    using that by (simp add: canShowModal_def after)
  show "\<not> canShowModal h t1 (showModal h t0 modalId w) modalId ''once-per-week''"
    if "\<not> devMode c \<and> frequency c = ''once-per-week'' \<and> getWeekNumber h t1 = getWeekNumber h t0"
    using that
    by (simp add: canShowModal_def after nullableToString_def parseInt_numToString)
  show "canShowModal h t1 w modalId freq" if "devMode c" for freq
    using that assms by (simp add: canShowModal_def)
qed

text \<open>
  The modal \<open>promo\<close> shown at 2000 and checked at 5000 under each of the three kinds, and
  then switched to dev mode with its session record still stored.
\<close>

theorem show_blocks_repeat_witness:
  "\<not> canShowModal desktop1970 5000 (showModal desktop1970 2000 ''promo'' (registeredPage manualConfig))
       ''promo'' ''once-per-session''
   \<and> \<not> canShowModal desktop1970 5000
        (showModal desktop1970 2000 ''promo'' (registeredPage (manualConfig\<lparr>frequency := ''once-per-day''\<rparr>)))
        ''promo'' ''once-per-day''
   \<and> \<not> canShowModal desktop1970 5000
        (showModal desktop1970 2000 ''promo'' (registeredPage (manualConfig\<lparr>frequency := ''once-per-week''\<rparr>)))
        ''promo'' ''once-per-week''
   \<and> getItem (session (enableDevMode ''promo'' (showModal desktop1970 2000 ''promo'' (registeredPage manualConfig))))
         ''modal_promo_session'' = Some ''2000''
   \<and> canShowModal desktop1970 5000
        (enableDevMode ''promo'' (showModal desktop1970 2000 ''promo'' (registeredPage manualConfig)))
        ''promo'' ''once-per-session''"
proof -
  let ?h = desktop1970
  have g1: "getModal (registeredPage manualConfig) ''promo'' = Some (0, manualConfig)"
    by (rule registeredPage_getModal) (simp add: manualConfig_simps)
  have g2: "getModal (registeredPage (manualConfig\<lparr>frequency := ''once-per-day''\<rparr>)) ''promo''
              = Some (0, manualConfig\<lparr>frequency := ''once-per-day''\<rparr>)"
    by (rule registeredPage_getModal) (simp add: manualConfig_simps)
  have g3: "getModal (registeredPage (manualConfig\<lparr>frequency := ''once-per-week''\<rparr>)) ''promo''
              = Some (0, manualConfig\<lparr>frequency := ''once-per-week''\<rparr>)"
    by (rule registeredPage_getModal) (simp add: manualConfig_simps)
  let ?shown = "showModal ?h 2000 ''promo'' (registeredPage manualConfig)"
  let ?c' = "manualConfig\<lparr>element := (element manualConfig)\<lparr>styleDisplay := ''block'', ariaHidden := ''false''\<rparr>,
                      isShown := True, lastShown := Some 2000\<rparr>"
  have s: "getModal ?shown ''promo'' = Some (0, ?c')"
    by (rule showModal_getModal [OF g1])
  have g4: "getModal (enableDevMode ''promo'' ?shown) ''promo''
              = Some (0, ?c'\<lparr>devMode := True, element := (element ?c')\<lparr>attrDevMode := Some ''true''\<rparr>\<rparr>)"
    using getModal_SomeD [OF s]
    by (simp add: enableDevMode_def s getModal_def updElement_def updConfig_def)
  have n: "numToString 2000 = ''2000''" by code_simp
  have st: "session (enableDevMode ''promo'' ?shown) = [(''modal_promo_session'', ''2000'')]"
    by (simp add: enableDevMode_def s updElement_def updConfig_def showModal_storage [OF g1]
        manualConfig_simps setItem_def storagePrefix_def n)
  have d: "toDateString ?h 5000 = toDateString ?h 2000"
    by (simp add: desktop1970_def)
  have wk: "getWeekNumber ?h 5000 = getWeekNumber ?h 2000"
    by (simp add: desktop1970_week)
  show ?thesis
    using show_blocks_repeat [OF g1, of ?h 5000 2000]
      show_blocks_repeat [OF g2, of ?h 5000 2000]
      show_blocks_repeat [OF g3, of ?h 5000 2000]
      show_blocks_repeat [OF g4, of ?h 5000 2000] d wk st
    by (simp add: manualConfig_simps getItem_def)
qed

section \<open>Dev mode at registration\<close>

text \<open>
  Claim C2, as stated: a config with \<open>devMode = true\<close> is never skipped at registration.
  It is refuted by a dev-mode config with \<open>desktopEnabled = false\<close> on a desktop viewport:
  \<open>registerModal\<close> checks the device first, and that check does not look at \<open>devMode\<close>.
\<close>

theorem devMode_registration_counterexample:
  "devMode (manualConfig\<lparr>devMode := True, desktopEnabled := False\<rparr>)
   \<and> \<not> isRegistered (getStatus desktop1970 1000
        (registerModal desktop1970 1000 ''promo''
           (manualConfig\<lparr>devMode := True, desktopEnabled := False\<rparr>) emptyPage) ''promo'')"
  by (simp add: registerModal_def isDeviceCompatible_def desktop1970_def manualConfig_simps
      getStatus_def getModal_def emptyPage_def)

text \<open>
  Claim C2, amended. For a config with \<open>devMode = true\<close>: on an incompatible device
  registration is skipped and the page is unchanged; on a compatible device registration
  is not skipped whenever \<open>canShowModal\<close> passes for the id and the frequency of the config
  at that instant, and from then on \<open>canShowModal\<close> is true for the id under every
  frequency, whatever is stored. The check passes for every frequency other than
  \<open>once-per-session\<close>, \<open>once-per-day\<close> and \<open>once-per-week\<close> whatever is stored, when no
  record is stored for the id in a week number other than 0, and when the id is already
  registered in dev mode. The case of a compatible device with a stored record that blocks
  the frequency of the config is not covered: it is the subject of
  \<open>devMode_registration_frequency_skip\<close>.
\<close>

theorem devMode_registration:
  assumes "devMode c"
  shows "(\<not> isDeviceCompatible h c \<longrightarrow> registerModal h now modalId c w = w)
       \<and> (isDeviceCompatible h c \<and> canShowModal h now w modalId (frequency c) \<longrightarrow>
            getModal (registerModal h now modalId c w) modalId = Some (length (heap w), c)
            \<and> isRegistered (getStatus h t (registerModal h now modalId c w) modalId)
            \<and> (\<forall>freq. canShowModal h t (registerModal h now modalId c w) modalId freq))
       \<and> (frequency c \<notin> {''once-per-session'', ''once-per-day'', ''once-per-week''} \<longrightarrow>
            canShowModal h now w modalId (frequency c))
       \<and> (getItem (session w) (storagePrefix @ modalId @ ''_session'') = None
          \<and> getItem (local w) (storagePrefix @ modalId @ ''_day'') = None
          \<and> getItem (local w) (storagePrefix @ modalId @ ''_week'') = None
          \<and> getWeekNumber h now \<noteq> 0 \<longrightarrow>
            canShowModal h now w modalId (frequency c))
       \<and> (statusDevMode (getStatus h now w modalId) \<longrightarrow>
            canShowModal h now w modalId (frequency c))"
proof -
  have a: "\<not> isDeviceCompatible h c \<longrightarrow> registerModal h now modalId c w = w"
    by (simp add: registerModal_skip_device)
  have b: "isDeviceCompatible h c \<and> canShowModal h now w modalId (frequency c) \<longrightarrow>
            getModal (registerModal h now modalId c w) modalId = Some (length (heap w), c)
            \<and> isRegistered (getStatus h t (registerModal h now modalId c w) modalId)
            \<and> (\<forall>freq. canShowModal h t (registerModal h now modalId c w) modalId freq)"
  proof
    assume "isDeviceCompatible h c \<and> canShowModal h now w modalId (frequency c)"
    then have g: "getModal (registerModal h now modalId c w) modalId = Some (length (heap w), c)"
      by (simp add: registerModal_stored)
    then show "getModal (registerModal h now modalId c w) modalId = Some (length (heap w), c)
            \<and> isRegistered (getStatus h t (registerModal h now modalId c w) modalId)
            \<and> (\<forall>freq. canShowModal h t (registerModal h now modalId c w) modalId freq)"
      using assms by (simp add: getStatus_def canShowModal_def)
  qed
  have c: "frequency c \<notin> {''once-per-session'', ''once-per-day'', ''once-per-week''} \<longrightarrow>
            canShowModal h now w modalId (frequency c)"
    by (simp add: canShowModal_def)
  have d: "getItem (session w) (storagePrefix @ modalId @ ''_session'') = None
          \<and> getItem (local w) (storagePrefix @ modalId @ ''_day'') = None
          \<and> getItem (local w) (storagePrefix @ modalId @ ''_week'') = None
          \<and> getWeekNumber h now \<noteq> 0 \<longrightarrow>
            canShowModal h now w modalId (frequency c)"
    by (simp add: canShowModal_no_record)
  have e: "statusDevMode (getStatus h now w modalId) \<longrightarrow>
            canShowModal h now w modalId (frequency c)"
    by (simp add: statusDevMode_eq canShowModal_def)
  from a b c d e show ?thesis by blast
qed

theorem devMode_registration_witness:
  "\<not> isDeviceCompatible desktop1970 (manualConfig\<lparr>devMode := True, desktopEnabled := False\<rparr>)
   \<and> registerModal desktop1970 1000 ''promo'' (manualConfig\<lparr>devMode := True, desktopEnabled := False\<rparr>) emptyPage
       = emptyPage
   \<and> isDeviceCompatible desktop1970 (manualConfig\<lparr>devMode := True, frequency := ''always''\<rparr>)
   \<and> getItem (session recordedSession) ''modal_promo_session'' = Some ''2000''
   \<and> canShowModal desktop1970 5000 recordedSession ''promo'' ''always''
   \<and> isRegistered (getStatus desktop1970 6000
        (registerModal desktop1970 5000 ''promo'' (manualConfig\<lparr>devMode := True, frequency := ''always''\<rparr>)
           recordedSession) ''promo'')
   \<and> canShowModal desktop1970 6000
        (registerModal desktop1970 5000 ''promo'' (manualConfig\<lparr>devMode := True, frequency := ''always''\<rparr>)
           recordedSession) ''promo'' ''once-per-session''
   \<and> getWeekNumber desktop1970 1000 \<noteq> 0
   \<and> isRegistered (getStatus desktop1970 6000
        (registerModal desktop1970 1000 ''promo'' (manualConfig\<lparr>devMode := True\<rparr>) emptyPage) ''promo'')
   \<and> statusDevMode (getStatus desktop1970 5000 (registeredPage (manualConfig\<lparr>devMode := True\<rparr>)) ''promo'')
   \<and> canShowModal desktop1970 5000 (registeredPage (manualConfig\<lparr>devMode := True\<rparr>)) ''promo''
        ''once-per-session''"
proof -
  let ?h = desktop1970
  let ?c1 = "manualConfig\<lparr>devMode := True, desktopEnabled := False\<rparr>"
  let ?c2 = "manualConfig\<lparr>devMode := True, frequency := ''always''\<rparr>"
  let ?c3 = "manualConfig\<lparr>devMode := True\<rparr>"
  have d1: "devMode ?c1" and d2: "devMode ?c2" and d3: "devMode ?c3" by simp_all
  have n1: "\<not> isDeviceCompatible ?h ?c1"
    and k2: "isDeviceCompatible ?h ?c2" and k3: "isDeviceCompatible ?h ?c3"
    by (simp_all add: isDeviceCompatible_def desktop1970_def manualConfig_simps)
  have f2: "frequency ?c2 \<notin> {''once-per-session'', ''once-per-day'', ''once-per-week''}"
    and f2': "frequency ?c2 = ''always''" and f3: "frequency ?c3 = ''once-per-session''"
    by (simp_all add: manualConfig_simps)
  have r: "getItem (session recordedSession) ''modal_promo_session'' = Some ''2000''"
    by (simp add: recordedSession_def getItem_def)
  have e: "getItem (session emptyPage) k = None" "getItem (local emptyPage) k = None" for k
    by (simp_all add: emptyPage_def getItem_def)
  have wk: "getWeekNumber ?h 1000 \<noteq> 0" by (simp add: desktop1970_week)
  have g: "getModal (registeredPage ?c3) ''promo'' = Some (0, ?c3)"
    by (rule registeredPage_getModal) (simp add: manualConfig_simps)
  have sd: "statusDevMode (getStatus ?h 5000 (registeredPage ?c3) ''promo'')"
    by (simp add: getStatus_def g)
  note i1 = devMode_registration [OF d1, of ?h 1000 "''promo''" emptyPage 6000]
  note i2 = devMode_registration [OF d2, of ?h 5000 "''promo''" recordedSession 6000]
  note i3 = devMode_registration [OF d3, of ?h 1000 "''promo''" emptyPage 6000]
  note i4 = devMode_registration [OF d3, of ?h 5000 "''promo''" "registeredPage ?c3" 6000]
  have a1: "registerModal ?h 1000 ''promo'' ?c1 emptyPage = emptyPage"
    using i1 n1 by blast
  have c2: "canShowModal ?h 5000 recordedSession ''promo'' ''always''"
    using i2 f2 unfolding f2' by blast
  have a2: "isRegistered (getStatus ?h 6000 (registerModal ?h 5000 ''promo'' ?c2 recordedSession) ''promo'')
        \<and> canShowModal ?h 6000 (registerModal ?h 5000 ''promo'' ?c2 recordedSession) ''promo''
             ''once-per-session''"
    using i2 k2 c2 unfolding f2' by blast
  have c3: "canShowModal ?h 1000 emptyPage ''promo'' (frequency ?c3)"
    using i3 e wk by blast
  have a3: "isRegistered (getStatus ?h 6000 (registerModal ?h 1000 ''promo'' ?c3 emptyPage) ''promo'')"
    using i3 k3 c3 by blast
  have a4: "canShowModal ?h 5000 (registeredPage ?c3) ''promo'' ''once-per-session''"
    using i4 sd unfolding f3 by blast
  from n1 a1 k2 r c2 a2 wk a3 sd a4 show ?thesis by blast
qed

section \<open>Showing a modal that is already visible\<close>

text \<open>
  Claim C3 says that the public \<open>show\<close> does nothing for an unknown id and for a modal
  that is already visible. The first half holds (\<open>showModal_unknown\<close>). For a visible
  modal the code runs the whole display again: \<open>promo\<close>, shown at 2000 and shown again at
  4000 while visible, gets a new \<open>lastShown\<close>, its session record is overwritten and a
  second \<open>modal:shown\<close> event is dispatched.
\<close>

theorem show_visible_repeats:
  "(let w = show desktop1970 2000 ''promo'' (registeredPage manualConfig);
        w' = show desktop1970 4000 ''promo'' w
    in statusIsShown (getStatus desktop1970 4000 w ''promo'')
       \<and> statusLastShown (getStatus desktop1970 4000 w ''promo'') = Some 2000
       \<and> statusLastShown (getStatus desktop1970 4000 w' ''promo'') = Some 4000
       \<and> getItem (session w) ''modal_promo_session'' = Some ''2000''
       \<and> getItem (session w') ''modal_promo_session'' = Some ''4000''
       \<and> events w = [(''modal:shown'', ''promo'', 0)]
       \<and> events w' = [(''modal:shown'', ''promo'', 0), (''modal:shown'', ''promo'', 0)])"
proof -
  have g1: "getModal (registeredPage manualConfig) ''promo'' = Some (0, manualConfig)"
    by (rule registeredPage_getModal) (simp add: manualConfig_simps)
  note g2 = showModal_getModal [OF g1, of desktop1970 2000]
  note g3 = showModal_getModal [OF g2, of desktop1970 4000]
  have n: "numToString 2000 = ''2000''" "numToString 4000 = ''4000''" by code_simp+
  show ?thesis
    unfolding Let_def show_def
    by (simp add: getStatus_def g2 g3 showModal_storage [OF g1] showModal_storage [OF g2]
        showModal_fields [OF g1] showModal_fields [OF g2] manualConfig_simps storagePrefix_def n)
qed

section \<open>Auto-close\<close>

text \<open>
  Claim C4 says that showing a modal arms its auto-close timer. The timer is armed by
  \<open>setupModalEvents\<close> at registration instead, and \<open>showModal\<close> arms none
  (\<open>showModal_timers\<close>). For a modal registered at 1000 that opens after 10 seconds and
  has \<open>autoCloseAfter = 5\<close>, the auto-close callback is due at 6000, finds the modal
  hidden and does nothing; the modal opens at 11000, and once both callbacks have run no
  callback is left and the modal is still shown.
\<close>

theorem autoclose_armed_at_registration:
  "timers (registeredPage timedConfig) = [(11000, TriggerModal ''promo''), (6000, AutoClose 0 ''promo'')]
   \<and> map_option (\<lambda>w. (timers w, statusIsShown (getStatus desktop1970 20000 w ''promo''), map fst (events w)))
        (runTimers 2 desktop1970 (registeredPage timedConfig))
      = Some ([], True, [''modal:shown''])"
proof -
  have g: "getModal (timedWaiting\<lparr>timers := []\<rparr>) ''promo'' = Some (0, timedConfig)"
    by (simp add: timedWaiting_getModal)
  let ?w = "showModal desktop1970 11000 ''promo'' (timedWaiting\<lparr>timers := []\<rparr>)"
  have r: "runTimers 2 desktop1970 (registeredPage timedConfig) = Some ?w"
    by (simp add: numeral_2_eq_2 timedPage_tick1 timedPage_tick2 showModal_timers)
  have e: "events ?w = [(''modal:shown'', ''promo'', 0)]"
    unfolding showModal_fields [OF g] by (simp add: timedWaiting_def emptyPage_def)
  show ?thesis
    by (simp add: r e showModal_timers getStatus_def showModal_getModal [OF g])
       (simp add: timedPage_eval emptyPage_def)
qed

section \<open>Closing in dev mode\<close>

text \<open>
  Claim C5. For a registered modal in dev mode that is shown, \<open>closeModal\<close> and the public
  \<open>hide\<close> return the page unchanged, so the modal stays shown; \<open>forceClose\<close> hides it,
  clears the \<open>overflow\<close> style of the body and dispatches \<open>modal:closed\<close>.
\<close>

theorem devMode_close_blocked:
  assumes "getModal w modalId = Some (r, c)" and "devMode c" and "isShown c"
  shows "closeModal now modalId w = w
       \<and> hide now modalId w = w
       \<and> statusIsShown (getStatus h t (closeModal now modalId w) modalId)
       \<and> \<not> statusIsShown (getStatus h t (forceClose now modalId w) modalId)
       \<and> bodyOverflow (forceClose now modalId w) = []
       \<and> events (forceClose now modalId w) = events w @ [(''modal:closed'', modalId, r)]"
  using assms
  by (simp add: closeModal_def hide_def forceClose_def getStatus_def hideNow_getModal hideNow_fields)

theorem devMode_close_blocked_witness:
  "(let w = showModal desktop1970 2000 ''promo'' (registeredPage (manualConfig\<lparr>devMode := True\<rparr>))
    in statusDevMode (getStatus desktop1970 3000 w ''promo'')
       \<and> statusIsShown (getStatus desktop1970 3000 w ''promo'')
       \<and> hide 3000 ''promo'' w = w
       \<and> \<not> statusIsShown (getStatus desktop1970 3000 (forceClose 3000 ''promo'' w) ''promo'')
       \<and> events (forceClose 3000 ''promo'' w) = events w @ [(''modal:closed'', ''promo'', 0)])"
  using devMode_close_blocked [OF devShown_getModal, of 3000 desktop1970 3000]
  by (simp add: Let_def getStatus_def devShown_getModal manualConfig_simps)

section \<open>Trigger firing\<close>

text \<open>
  Claim C6. \<open>triggerModal\<close> takes the modal from hidden to shown exactly when the id is
  registered, the modal is not shown and \<open>canShowModal\<close> passes for its frequency at that
  instant; it then is \<open>showModal\<close>. In every other case the page is unchanged. The model
  is a total function: no branch of \<open>triggerModal\<close> throws.
\<close>

theorem trigger_shows_iff:
  "(let st = getStatus h now w modalId;
        ok = (isRegistered st \<and> \<not> statusIsShown st \<and> canShow st);
        w' = triggerModal h now modalId w
    in ((\<not> statusIsShown st \<and> statusIsShown (getStatus h now w' modalId)) \<longleftrightarrow> ok)
       \<and> (ok \<longrightarrow> w' = showModal h now modalId w)
       \<and> (\<not> ok \<longrightarrow> w' = w))"
proof (cases "getModal w modalId")
  case None
  then show ?thesis by (simp add: getStatus_def triggerModal_def)
next
  case (Some p)
  then obtain r c where g: "getModal w modalId = Some (r, c)" by (cases p) auto
  show ?thesis
    using g by (simp add: getStatus_def triggerModal_def Let_def showModal_getModal)
qed

theorem trigger_shows_iff_witness:
  "(let st = getStatus desktop1970 2000 (registeredPage manualConfig) ''promo''
    in isRegistered st \<and> \<not> statusIsShown st \<and> canShow st)
   \<and> statusIsShown (getStatus desktop1970 2000
         (triggerModal desktop1970 2000 ''promo'' (registeredPage manualConfig)) ''promo'')
   \<and> \<not> isRegistered (getStatus desktop1970 2000 (registeredPage manualConfig) ''other'')
   \<and> triggerModal desktop1970 2000 ''other'' (registeredPage manualConfig) = registeredPage manualConfig"
proof -
  have g1: "getModal (registeredPage manualConfig) ''promo'' = Some (0, manualConfig)"
    by (rule registeredPage_getModal) (simp add: manualConfig_simps)
  have g2: "getModal (registeredPage manualConfig) ''other'' = None"
    using getModal_SomeD [OF g1]
    by (simp add: getModal_def registeredPage_def registerModal_def Let_def emptyPage_def
        split: if_splits)
  have c: "canShowModal desktop1970 2000 (registeredPage manualConfig) ''promo'' ''once-per-session''"
    by (simp add: canShowModal_def g1 manualConfig_simps getItem_def)
  have ok: "isRegistered (getStatus desktop1970 2000 (registeredPage manualConfig) ''promo'')
        \<and> \<not> statusIsShown (getStatus desktop1970 2000 (registeredPage manualConfig) ''promo'')
        \<and> canShow (getStatus desktop1970 2000 (registeredPage manualConfig) ''promo'')"
    by (simp add: getStatus_def g1 manualConfig_simps c)
  have nok: "\<not> isRegistered (getStatus desktop1970 2000 (registeredPage manualConfig) ''other'')"
    by (simp add: getStatus_def g2)
  have shown: "statusIsShown (getStatus desktop1970 2000
         (triggerModal desktop1970 2000 ''promo'' (registeredPage manualConfig)) ''promo'')"
    using trigger_shows_iff [of desktop1970 2000 "registeredPage manualConfig" "''promo''"] ok
    unfolding Let_def by blast
  have same: "triggerModal desktop1970 2000 ''other'' (registeredPage manualConfig)
                = registeredPage manualConfig"
    using trigger_shows_iff [of desktop1970 2000 "registeredPage manualConfig" "''other''"] nok
    unfolding Let_def by blast
  from ok nok shown same show ?thesis by (simp add: Let_def)
qed

section \<open>Resetting the frequency records\<close>

text \<open>
  Claim C7, as stated: \<open>show\<close> followed by \<open>resetFrequency\<close> gives \<open>canShowModal\<close> the value
  it had before the \<open>show\<close>. It is refuted on the page where \<open>promo\<close> (not in dev mode) was
  shown and closed before: the check fails before the second \<open>show\<close>, because of the
  record of the first, and passes after the reset, which removes the record.
\<close>

theorem reset_after_show_counterexample:
  "isRegistered (getStatus desktop1970 5000 closedPage ''promo'')
   \<and> \<not> statusDevMode (getStatus desktop1970 5000 closedPage ''promo'')
   \<and> \<not> canShowModal desktop1970 5000 closedPage ''promo'' ''once-per-session''
   \<and> canShowModal desktop1970 5000
        (resetFrequency ''promo'' (show desktop1970 4000 ''promo'' closedPage))
        ''promo'' ''once-per-session''"
proof -
  have g1: "getModal (registeredPage manualConfig) ''promo'' = Some (0, manualConfig)"
    by (rule registeredPage_getModal) (simp add: manualConfig_simps)
  let ?shown = "showModal desktop1970 2000 ''promo'' (registeredPage manualConfig)"
  note g2 = showModal_getModal [OF g1, of desktop1970 2000]
  have cl: "closedPage = hideNow 3000 ''promo'' 0 ?shown"
    by (simp add: closedPage_def show_def closeModal_def g2 manualConfig_simps)
  note g3 = hideNow_getModal [OF g2, of 3000]
  have reg: "isRegistered (getStatus desktop1970 5000 closedPage ''promo'')"
    and dm: "\<not> statusDevMode (getStatus desktop1970 5000 closedPage ''promo'')"
    by (simp_all add: getStatus_def cl g3 manualConfig_simps)
  have ss: "getItem (session closedPage) ''modal_promo_session'' = Some (numToString 2000)"
    by (simp add: cl hideNow_fields showModal_storage [OF g1] manualConfig_simps storagePrefix_def)
  have before: "\<not> canShowModal desktop1970 5000 closedPage ''promo'' ''once-per-session''"
    using ss by (simp add: canShowModal_def cl g3 manualConfig_simps storagePrefix_def numToString_ne)
  have "getItem (session (resetFrequency ''promo'' (show desktop1970 4000 ''promo'' closedPage)))
          ''modal_promo_session'' = None"
    by (simp add: resetFrequency_def storagePrefix_def)
  then have after: "canShowModal desktop1970 5000
        (resetFrequency ''promo'' (show desktop1970 4000 ''promo'' closedPage))
        ''promo'' ''once-per-session''"
    by (simp add: canShowModal_def storagePrefix_def)
  from reg dm before after show ?thesis by simp
qed

text \<open>
  Claim C7, amended. After \<open>show\<close> followed by \<open>resetFrequency\<close>, \<open>canShowModal\<close> for the id has
  the value it has with no record stored: true, except for \<open>once-per-week\<close> in week number
  0 with the modal not in dev mode. So, outside that exception, the pair restores the value
  from before the \<open>show\<close> exactly when that value was true, whatever stale records or
  records of other kinds were stored; and it restores it in every case when no record was
  stored for the id before the \<open>show\<close>.
\<close>

theorem reset_after_show_reopens:
  "(canShowModal h t (resetFrequency modalId (show h t0 modalId w)) modalId kind
      = (statusDevMode (getStatus h t w modalId) \<or> kind \<noteq> ''once-per-week'' \<or> getWeekNumber h t \<noteq> 0))
   \<and> ((kind = ''once-per-week'' \<longrightarrow> getWeekNumber h t \<noteq> 0) \<longrightarrow>
        ((canShowModal h t (resetFrequency modalId (show h t0 modalId w)) modalId kind
            = canShowModal h t w modalId kind)
         \<longleftrightarrow> canShowModal h t w modalId kind))
   \<and> (getItem (session w) (storagePrefix @ modalId @ ''_session'') = None
        \<and> getItem (local w) (storagePrefix @ modalId @ ''_day'') = None
        \<and> getItem (local w) (storagePrefix @ modalId @ ''_week'') = None \<longrightarrow>
        canShowModal h t (resetFrequency modalId (show h t0 modalId w)) modalId kind
          = canShowModal h t w modalId kind)"
proof -
  let ?after = "canShowModal h t (resetFrequency modalId (show h t0 modalId w)) modalId kind"
  have a: "?after = (statusDevMode (getStatus h t w modalId) \<or> kind \<noteq> ''once-per-week''
                      \<or> getWeekNumber h t \<noteq> 0)"
    by (simp add: canShowModal_after_reset statusDevMode_eq show_def devCheck_showModal)
  have b: "(kind = ''once-per-week'' \<longrightarrow> getWeekNumber h t \<noteq> 0) \<longrightarrow>
        ((?after = canShowModal h t w modalId kind) \<longleftrightarrow> canShowModal h t w modalId kind)"
    using a by auto
  have c: "getItem (session w) (storagePrefix @ modalId @ ''_session'') = None
        \<and> getItem (local w) (storagePrefix @ modalId @ ''_day'') = None
        \<and> getItem (local w) (storagePrefix @ modalId @ ''_week'') = None \<longrightarrow>
        ?after = canShowModal h t w modalId kind"
  proof
    assume h: "getItem (session w) (storagePrefix @ modalId @ ''_session'') = None
        \<and> getItem (local w) (storagePrefix @ modalId @ ''_day'') = None
        \<and> getItem (local w) (storagePrefix @ modalId @ ''_week'') = None"
    then have s: "session (resetFrequency modalId (show h t0 modalId w)) = session w"
      and l: "local (resetFrequency modalId (show h t0 modalId w)) = local w"
      by (simp_all add: reset_after_show_storage)
    show "?after = canShowModal h t w modalId kind"
      unfolding canShowModal_def
      by (simp add: s l devCheck_showModal [unfolded show_def[symmetric]])
  qed
  from a b c show ?thesis by blast
qed

theorem reset_after_show_reopens_witness:
  "getWeekNumber desktop1970 5000 \<noteq> 0
   \<and> canShowModal desktop1970 5000 (registeredPage (manualConfig\<lparr>frequency := ''once-per-week''\<rparr>))
        ''promo'' ''once-per-week''
   \<and> canShowModal desktop1970 5000
        (resetFrequency ''promo'' (show desktop1970 2000 ''promo''
           (registeredPage (manualConfig\<lparr>frequency := ''once-per-week''\<rparr>))))
        ''promo'' ''once-per-week''
   \<and> getItem (local staleDayPage) ''modal_promo_day'' = Some ''day 0''
   \<and> canShowModal desktop1970 86405000 staleDayPage ''promo'' ''once-per-day''
   \<and> canShowModal desktop1970 86405000
        (resetFrequency ''promo'' (show desktop1970 86402000 ''promo'' staleDayPage))
        ''promo'' ''once-per-day''
   \<and> getItem (session (registeredPage manualConfig)) (storagePrefix @ ''promo'' @ ''_session'') = None
   \<and> canShowModal desktop1970 5000
        (resetFrequency ''promo'' (show desktop1970 2000 ''promo'' (registeredPage manualConfig)))
        ''promo'' ''once-per-session''
      = canShowModal desktop1970 5000 (registeredPage manualConfig) ''promo'' ''once-per-session''"
proof -
  let ?h = desktop1970
  let ?wk = "registeredPage (manualConfig\<lparr>frequency := ''once-per-week''\<rparr>)"
  have wk: "getWeekNumber ?h 5000 \<noteq> 0" by (simp add: desktop1970_week)
  have gw: "getModal ?wk ''promo'' = Some (0, manualConfig\<lparr>frequency := ''once-per-week''\<rparr>)"
    by (rule registeredPage_getModal) (simp add: manualConfig_simps)
  have bw: "canShowModal ?h 5000 ?wk ''promo'' ''once-per-week''"
    by (rule canShowModal_no_record) (simp_all add: getItem_def wk)
  have aw: "canShowModal ?h 5000 (resetFrequency ''promo'' (show ?h 2000 ''promo'' ?wk))
              ''promo'' ''once-per-week''"
    using reset_after_show_reopens [of ?h 5000 "''promo''" 2000 ?wk "''once-per-week''"] wk bw
    by blast
  have n: "numToString 1 = ''1''" by code_simp
  have sl: "getItem (local staleDayPage) ''modal_promo_day'' = Some ''day 0''"
    by (simp add: staleDayPage_def getItem_def)
  have bd: "canShowModal ?h 86405000 staleDayPage ''promo'' ''once-per-day''"
    using sl
    by (simp add: canShowModal_def staleDayPage_getModal manualConfig_simps storagePrefix_def
        desktop1970_def n)
  have ad: "canShowModal ?h 86405000
        (resetFrequency ''promo'' (show ?h 86402000 ''promo'' staleDayPage)) ''promo'' ''once-per-day''"
    using reset_after_show_reopens [of ?h 86405000 "''promo''" 86402000 staleDayPage "''once-per-day''"] bd
    by simp
  have e: "getItem (session (registeredPage manualConfig)) (storagePrefix @ ''promo'' @ ''_session'') = None"
    "getItem (local (registeredPage manualConfig)) (storagePrefix @ ''promo'' @ ''_day'') = None"
    "getItem (local (registeredPage manualConfig)) (storagePrefix @ ''promo'' @ ''_week'') = None"
    by (simp_all add: getItem_def)
  have s: "canShowModal ?h 5000
        (resetFrequency ''promo'' (show ?h 2000 ''promo'' (registeredPage manualConfig)))
        ''promo'' ''once-per-session''
      = canShowModal ?h 5000 (registeredPage manualConfig) ''promo'' ''once-per-session''"
    using reset_after_show_reopens [of ?h 5000 "''promo''" 2000 "registeredPage manualConfig"
        "''once-per-session''"] e
    by blast
  from wk bw aw sl bd ad e(1) s show ?thesis by blast
qed

section \<open>Week number\<close>

text \<open>
  Claim C8. The week number is the ceiling of the milliseconds elapsed since 1 January of
  the current year divided by the milliseconds of a week, which is the ceiling of the
  elapsed days divided by 7; every instant of the first seven days after the start of the
  year is in week 1, whatever the weekday of 1 January (the start of the year itself
  gets 0).
\<close>

theorem week_number_formula:
  "getWeekNumber h now =
     \<lceil>real_of_int (now - newDateJan1 h (getFullYear h now)) / (7 * 24 * 60 * 60 * 1000)\<rceil>
   \<and> getWeekNumber h now =
     \<lceil>(real_of_int (now - newDateJan1 h (getFullYear h now)) / (24 * 60 * 60 * 1000)) / 7\<rceil>
   \<and> (0 < now - newDateJan1 h (getFullYear h now)
        \<and> now - newDateJan1 h (getFullYear h now) \<le> 7 * 24 * 60 * 60 * 1000
      \<longrightarrow> getWeekNumber h now = 1)"
proof -
  have a: "getWeekNumber h now =
     \<lceil>real_of_int (now - newDateJan1 h (getFullYear h now)) / (7 * 24 * 60 * 60 * 1000)\<rceil>"
    by (simp add: getWeekNumber_def weekMs_def ceilDiv_ceiling)
  have b: "0 < now - newDateJan1 h (getFullYear h now)
        \<and> now - newDateJan1 h (getFullYear h now) \<le> 7 * 24 * 60 * 60 * 1000
      \<longrightarrow> getWeekNumber h now = 1"
    using ceilDiv_first_week [of "now - newDateJan1 h (getFullYear h now)"]
    by (simp add: getWeekNumber_def weekMs_def)
  from a b show ?thesis by simp
qed

theorem week_number_formula_witness:
  "(0::int) < 86400000 - newDateJan1 desktop1970 (getFullYear desktop1970 86400000)
   \<and> 86400000 - newDateJan1 desktop1970 (getFullYear desktop1970 86400000) \<le> 7 * 24 * 60 * 60 * 1000
   \<and> getWeekNumber desktop1970 86400000 = 1"
  using week_number_formula [of desktop1970 86400000]
  by (simp add: desktop1970_def)

section \<open>Cleanup of old session records\<close>

text \<open>
  Claim C9 says that after \<open>cleanupOldData\<close> no prefixed session record older than seven
  days remains. The loop removes an entry and then increments its index, so the entry that
  moved into the freed position is never inspected: of two expired records the second
  one survives.
\<close>

theorem cleanup_skips_neighbour:
  "session (cleanupOldData 1700000000000 (emptyPage\<lparr>session := staleSession\<rparr>))
     = [(''modal_b_session'', ''1690000000001'')]
   \<and> parseInt ''1690000000001'' = Some 1690000000001
   \<and> (1690000000001::int) < 1700000000000 - 7 * 24 * 60 * 60 * 1000"
proof -
  let ?a = "(''modal_a_session'', ''1690000000000'')"
  let ?b = "(''modal_b_session'', ''1690000000001'')"
  have 1: "cleanupLoop 1699395200000 (Suc 0) [?b] = [?b]"
    by (subst cleanupLoop.simps) simp
  have 0: "cleanupLoop 1699395200000 0 [?a, ?b] = cleanupLoop 1699395200000 (Suc 0) [?b]"
    by (subst cleanupLoop.simps)
       (simp add: startsWith_def storagePrefix_def getItem_def removeItem_def stale_parse)
  show ?thesis
    by (simp add: cleanupOldData_def staleSession_def emptyPage_def 0 1 stale_parse)
qed

section \<open>Unknown frequency values\<close>

text \<open>
  Claim C10. For a frequency string that is none of \<open>always\<close>, \<open>once-per-session\<close>,
  \<open>once-per-day\<close> and \<open>once-per-week\<close>, \<open>canShowModal\<close> is true for every id and page.
\<close>

theorem unknown_frequency_allows:
  "freq \<notin> {''always'', ''once-per-session'', ''once-per-day'', ''once-per-week''}
   \<Longrightarrow> canShowModal h now w modalId freq"
  by (simp add: canShowModal_def)

theorem unknown_frequency_allows_witness:
  "''weekly'' \<notin> {''always'', ''once-per-session'', ''once-per-day'', ''once-per-week''}
   \<and> canShowModal desktop1970 5000
        (showModal desktop1970 2000 ''promo'' (registeredPage (manualConfig\<lparr>frequency := ''weekly''\<rparr>)))
        ''promo'' ''weekly''"
  using unknown_frequency_allows [of "''weekly''" desktop1970 5000
      "showModal desktop1970 2000 ''promo'' (registeredPage (manualConfig\<lparr>frequency := ''weekly''\<rparr>))"
      "''promo''"]
  by simp

end
